theory Spec2Isabelle
  imports Main "HOL-Library.Word" "HOL-Library.Sublist"
begin

section \<open>Go library behaviour used by the scheduling package\<close>

text \<open>
  The verified code is the machine of package \<^verbatim>\<open>scheduling\<close>: the type
  \<^verbatim>\<open>Machine\<close>, \<^verbatim>\<open>NewMachine\<close>, \<^verbatim>\<open>Machine.Add\<close>, \<^verbatim>\<open>Machine.FinalizeScheduling\<close>,
  \<^verbatim>\<open>InstanceTypeList\<close>, \<^verbatim>\<open>filterInstanceTypesByRequirements\<close>, \<^verbatim>\<open>compatible\<close>,
  \<^verbatim>\<open>fits\<close> and \<^verbatim>\<open>hasOffering\<close>.

  Two pieces of the Go standard library appear in it: the verb \<^verbatim>\<open>%d\<close> of package
  \<^verbatim>\<open>fmt\<close> (with the flag and width \<^verbatim>\<open>%04d\<close> for host names) and \<^verbatim>\<open>atomic.AddInt64\<close>.
\<close>

definition digit_char :: "nat \<Rightarrow> char" where
  "digit_char d = char_of (48 + d)"

definition digit_val :: "char \<Rightarrow> nat" where
  "digit_val c = of_char c - 48"

text \<open>The decimal digits of a natural number, most significant first.\<close>

function digits :: "nat \<Rightarrow> string" where
  "digits n = (if n < 10 then [digit_char n] else digits (n div 10) @ [digit_char (n mod 10)])"
  by pat_completeness auto
termination
  by (relation "measure (\<lambda>n. n)") auto

declare digits.simps [simp del]

text \<open>\<^verbatim>\<open>%d\<close> of a signed integer: a minus sign for a negative value, then the digits.\<close>

definition fmt_d :: "int \<Rightarrow> string" where
  "fmt_d v = (if v < 0 then CHR ''-'' # digits (nat (- v)) else digits (nat v))"

definition pad0 :: "nat \<Rightarrow> string \<Rightarrow> string" where
  "pad0 w s = replicate (w - length s) CHR ''0'' @ s"

text \<open>
  \<^verbatim>\<open>%04d\<close>: the width 4 counts the sign, and the zeros stand between the sign and the
  digits (\<^verbatim>\<open>-5\<close> prints as \<^verbatim>\<open>-005\<close>); a longer number is not cut.
\<close>

definition fmt_04d :: "int \<Rightarrow> string" where
  "fmt_04d v = (if v < 0 then CHR ''-'' # pad0 3 (digits (nat (- v))) else pad0 4 (digits (nat v)))"

text \<open>Reading a decimal string back; used to show that formatting loses nothing.\<close>

definition undigits :: "string \<Rightarrow> nat" where
  "undigits s = foldl (\<lambda>acc c. acc * 10 + digit_val c) 0 s"

definition parse_d :: "string \<Rightarrow> int" where
  "parse_d s = (case s of [] \<Rightarrow> 0 | c # r \<Rightarrow> if c = CHR ''-'' then - int (undigits r) else int (undigits s))"

text \<open>
  \<^verbatim>\<open>lo.Filter\<close> (package \<^verbatim>\<open>samber/lo\<close>) walks the slice from the first element to the
  last, calls the predicate once on each element and appends the elements it accepts to
  the result. The predicate of \<^verbatim>\<open>filterInstanceTypesByRequirements\<close> is a closure that
  writes to three counters of the enclosing function, so the predicate of the model
  takes the captured state and returns it updated.
\<close>

fun lo_Filter :: "('a \<Rightarrow> 's \<Rightarrow> bool \<times> 's) \<Rightarrow> 'a list \<Rightarrow> 's \<Rightarrow> 'a list \<times> 's" where
  "lo_Filter predicate [] s = ([], s)"
| "lo_Filter predicate (item # collection) s =
     (case predicate item s of
        (keep, s') \<Rightarrow>
          (case lo_Filter predicate collection s' of
             (result, s'') \<Rightarrow> (if keep then item # result else result, s'')))"

section \<open>Data model\<close>

text \<open>The node selector operators of the Kubernetes API (\<^verbatim>\<open>v1.NodeSelectorOperator\<close>).\<close>

datatype NodeSelectorOperator =
  NodeSelectorOpIn | NodeSelectorOpNotIn | NodeSelectorOpExists
  | NodeSelectorOpDoesNotExist | NodeSelectorOpGt | NodeSelectorOpLt

text \<open>Well-known label keys of the Kubernetes API (\<^verbatim>\<open>v1.LabelHostname\<close>, \<^verbatim>\<open>v1.LabelTopologyZone\<close>).\<close>

definition LabelHostname :: string where
  "LabelHostname = ''kubernetes.io/hostname''"

definition LabelTopologyZone :: string where
  "LabelTopologyZone = ''topology.kubernetes.io/zone''"

text \<open>
  \<^verbatim>\<open>scheduling.Requirements\<close> is a Go map keyed by label key: \<^verbatim>\<open>FinalizeScheduling\<close>
  applies the builtin \<^verbatim>\<open>delete\<close> to it with a string key. Its element type (one
  requirement: a key with its allowed values) is declared in package \<^verbatim>\<open>pkg/scheduling\<close>
  and stays a type parameter \<open>'r\<close>.
\<close>

type_synonym 'r Requirements = "string \<rightharpoonup> 'r"

text \<open>
  An offering of an instance type. \<^verbatim>\<open>hasOffering\<close> reads \<^verbatim>\<open>Zone\<close> and
  \<^verbatim>\<open>CapacityType\<close> of the offerings that \<^verbatim>\<open>Offerings.Available()\<close> yields.
\<close>

record Offering =
  CapacityType :: string
  Zone :: string

text \<open>
  \<^verbatim>\<open>cloudprovider.InstanceType\<close>, with the members that the file reads: \<^verbatim>\<open>Name\<close>,
  \<^verbatim>\<open>Requirements\<close>, \<^verbatim>\<open>Offerings\<close> and the result of the method \<^verbatim>\<open>Allocatable()\<close>.
  The resource list type \<^verbatim>\<open>v1.ResourceList\<close> is the type parameter \<open>'res\<close>.
\<close>

record ('r, 'res) InstanceType =
  Name :: string
  itRequirements :: "'r Requirements"
  Offerings :: "Offering list"
  Allocatable :: 'res

text \<open>
  \<^verbatim>\<open>MachineTemplate\<close>, with the fields that the file reads or writes, and \<^verbatim>\<open>Machine\<close>,
  which embeds it. The field \<^verbatim>\<open>topology\<close> of \<^verbatim>\<open>Machine\<close> is a pointer to a tracker shared by
  all machines of a scheduling round: the tracker is not a field of the record but a
  state of its own, passed to and returned by each operation that uses it. The ledger
  \<^verbatim>\<open>hostPortUsage\<close> is owned by the machine and is a field.
\<close>

record ('taints, 'r, 'res) MachineTemplate =
  Requirements :: "'r Requirements"
  Taints :: 'taints
  Requests :: 'res
  InstanceTypeOptions :: "('r, 'res) InstanceType list"

record ('taints, 'r, 'res, 'pod, 'hpu) Machine = "('taints, 'r, 'res) MachineTemplate" +
  Pods :: "'pod list"
  hostPortUsage :: 'hpu

section \<open>Collaborators\<close>

text \<open>
  The functions of the packages \<^verbatim>\<open>pkg/scheduling\<close>, \<^verbatim>\<open>pkg/utils/resources\<close>,
  \<^verbatim>\<open>pkg/cloudprovider\<close> (the method \<^verbatim>\<open>Offerings.Available()\<close>, which yields the available
  offerings of an instance type) and of the topology tracker that the machine calls are
  not among the sources. They are parameters of the model, collected in one record; every
  theorem below that does not say otherwise holds for all of them. Their types follow the
  calls in the source and the interface section of the specification: a check returns an error or nothing
  (\<open>'e option\<close>, \<open>None\<close> for Go's \<^verbatim>\<open>nil\<close>) and does not change what it checks; the
  operations that write (\<^verbatim>\<open>Requirements.Add\<close>, \<^verbatim>\<open>Topology.Register\<close>, \<^verbatim>\<open>Topology.Record\<close>,
  \<^verbatim>\<open>HostPortUsage.Add\<close>) return the written value. \<^verbatim>\<open>Requirements.Values()\<close> ranges over a
  Go map, whose order is not fixed; the model takes one order for each map.
  The label key \<^verbatim>\<open>v1alpha5.LabelCapacityType\<close> is a constant of package
  \<^verbatim>\<open>pkg/apis/v1alpha5\<close> and is a parameter as well.
\<close>

record ('pod, 'taints, 'r, 'res, 'hpu, 'topo, 'e) deps =
  Tolerates :: "'taints \<Rightarrow> 'pod \<Rightarrow> 'e option"
  NewHostPortUsage :: 'hpu
  HostPortValidate :: "'hpu \<Rightarrow> 'pod \<Rightarrow> 'e option"
  HostPortAdd :: "'hpu \<Rightarrow> 'pod \<Rightarrow> 'hpu"
  NewRequirement :: "string \<Rightarrow> NodeSelectorOperator \<Rightarrow> string list \<Rightarrow> 'r"
  RequirementHas :: "'r \<Rightarrow> string \<Rightarrow> bool"
  NewRequirements :: "'r list \<Rightarrow> 'r Requirements"
  NewPodRequirements :: "'pod \<Rightarrow> 'r Requirements"
  RequirementsValues :: "'r Requirements \<Rightarrow> 'r list"
  RequirementsAdd :: "'r Requirements \<Rightarrow> 'r list \<Rightarrow> 'r Requirements"
  RequirementsHas :: "'r Requirements \<Rightarrow> string \<Rightarrow> bool"
  RequirementsGet :: "'r Requirements \<Rightarrow> string \<Rightarrow> 'r"
  Compatible :: "'r Requirements \<Rightarrow> 'r Requirements \<Rightarrow> 'e option"
  Intersects :: "'r Requirements \<Rightarrow> 'r Requirements \<Rightarrow> 'e option"
  TopologyRegister :: "'topo \<Rightarrow> string \<Rightarrow> string \<Rightarrow> 'topo"
  TopologyAddRequirements :: "'topo \<Rightarrow> 'r Requirements \<Rightarrow> 'r Requirements \<Rightarrow> 'pod \<Rightarrow> 'e + 'r Requirements"
  TopologyRecord :: "'topo \<Rightarrow> 'pod \<Rightarrow> 'r Requirements \<Rightarrow> 'topo"
  Merge :: "'res \<Rightarrow> 'res \<Rightarrow> 'res"
  Fits :: "'res \<Rightarrow> 'res \<Rightarrow> bool"
  RequestsForPods :: "'pod \<Rightarrow> 'res"
  OfferingsAvailable :: "Offering list \<Rightarrow> Offering list"
  LabelCapacityType :: string

section \<open>The instance type filter\<close>

definition compatible ::
  "('pod, 'taints, 'r, 'res, 'hpu, 'topo, 'e) deps \<Rightarrow> ('r, 'res) InstanceType \<Rightarrow> 'r Requirements \<Rightarrow> bool" where
  "compatible env instanceType requirements =
     (Intersects env (itRequirements instanceType) requirements = None)"

definition fits ::
  "('pod, 'taints, 'r, 'res, 'hpu, 'topo, 'e) deps \<Rightarrow> ('r, 'res) InstanceType \<Rightarrow> 'res \<Rightarrow> bool" where
  "fits env instanceType requests = Fits env requests (Allocatable instanceType)"

text \<open>The condition of the \<^verbatim>\<open>if\<close> in the loop of \<^verbatim>\<open>hasOffering\<close>, for one offering.\<close>

definition offering_matches ::
  "('pod, 'taints, 'r, 'res, 'hpu, 'topo, 'e) deps \<Rightarrow> 'r Requirements \<Rightarrow> Offering \<Rightarrow> bool" where
  "offering_matches env requirements offering =
     ((\<not> RequirementsHas env requirements LabelTopologyZone
        \<or> RequirementHas env (RequirementsGet env requirements LabelTopologyZone) (Zone offering))
      \<and> (\<not> RequirementsHas env requirements (LabelCapacityType env)
        \<or> RequirementHas env (RequirementsGet env requirements (LabelCapacityType env)) (CapacityType offering)))"

text \<open>The loop of \<^verbatim>\<open>hasOffering\<close>: it returns at the first offering that matches.\<close>

fun hasOffering_loop ::
  "('pod, 'taints, 'r, 'res, 'hpu, 'topo, 'e) deps \<Rightarrow> 'r Requirements \<Rightarrow> Offering list \<Rightarrow> bool" where
  "hasOffering_loop env requirements [] = False"
| "hasOffering_loop env requirements (offering # rest) =
     (if offering_matches env requirements offering then True
      else hasOffering_loop env requirements rest)"

definition hasOffering ::
  "('pod, 'taints, 'r, 'res, 'hpu, 'topo, 'e) deps \<Rightarrow> ('r, 'res) InstanceType \<Rightarrow> 'r Requirements \<Rightarrow> bool" where
  "hasOffering env instanceType requirements =
     hasOffering_loop env requirements (OfferingsAvailable env (Offerings instanceType))"

text \<open>The three counters that the closure of \<^verbatim>\<open>filterInstanceTypesByRequirements\<close> captures.\<close>

record counters =
  incompatCount :: nat
  fitsCount :: nat
  hasOfferingCount :: nat

text \<open>The closure passed to \<^verbatim>\<open>lo.Filter\<close>: three independent \<^verbatim>\<open>if\<close>s, then the verdict.\<close>

definition filter_closure ::
  "('pod, 'taints, 'r, 'res, 'hpu, 'topo, 'e) deps \<Rightarrow> 'r Requirements \<Rightarrow> 'res \<Rightarrow>
     ('r, 'res) InstanceType \<Rightarrow> counters \<Rightarrow> bool \<times> counters" where
  "filter_closure env requirements requests instanceType c0 =
     (let c1 = (if \<not> compatible env instanceType requirements
                then c0\<lparr>incompatCount := incompatCount c0 + 1\<rparr> else c0);
          c2 = (if \<not> fits env instanceType requests
                then c1\<lparr>fitsCount := fitsCount c1 + 1\<rparr> else c1);
          c3 = (if \<not> hasOffering env instanceType requirements
                then c2\<lparr>hasOfferingCount := hasOfferingCount c2 + 1\<rparr> else c2)
      in (compatible env instanceType requirements \<and> fits env instanceType requests
            \<and> hasOffering env instanceType requirements, c3))"

text \<open>The text of the single diagnostic line (the spelling is the source's).\<close>

definition filter_message :: "counters \<Rightarrow> string" where
  "filter_message c =
     fmt_d (int (incompatCount c)) @ '' incompatibile, '' @
     fmt_d (int (fitsCount c)) @ '' won'' @ [CHR 0x27] @ ''t fit, '' @
     fmt_d (int (hasOfferingCount c)) @ '' no offerings''"

definition filterInstanceTypesByRequirements ::
  "('pod, 'taints, 'r, 'res, 'hpu, 'topo, 'e) deps \<Rightarrow> ('r, 'res) InstanceType list \<Rightarrow>
     'r Requirements \<Rightarrow> 'res \<Rightarrow> ('r, 'res) InstanceType list \<times> string list" where
  "filterInstanceTypesByRequirements env instanceTypes requirements requests =
     (case lo_Filter (filter_closure env requirements requests) instanceTypes
             \<lparr>incompatCount = 0, fitsCount = 0, hasOfferingCount = 0\<rparr> of
        (results, c) \<Rightarrow> (results, [] @ [filter_message c]))"

section \<open>The listing of instance types\<close>

text \<open>
  The loop of \<^verbatim>\<open>InstanceTypeList\<close>: \<open>n\<close> is \<^verbatim>\<open>len(instanceTypeOptions)\<close>, \<open>i\<close> the index
  of the element at the head of the remaining list and \<open>itSb\<close> the text built so far.
\<close>

fun InstanceTypeList_loop ::
  "nat \<Rightarrow> nat \<Rightarrow> ('r, 'res) InstanceType list \<Rightarrow> string \<Rightarrow> string" where
  "InstanceTypeList_loop n i [] itSb = itSb"
| "InstanceTypeList_loop n i (it # rest) itSb =
     (if i > 4 then itSb @ '' and '' @ fmt_d (int n - int i) @ '' other(s)''
      else InstanceTypeList_loop n (i + 1) rest
             ((if i > 0 then itSb @ '', '' else itSb) @ Name it))"

definition InstanceTypeList :: "('r, 'res) InstanceType list \<Rightarrow> string" where
  "InstanceTypeList instanceTypeOptions =
     InstanceTypeList_loop (length instanceTypeOptions) 0 instanceTypeOptions []"

section \<open>Machines\<close>

text \<open>
  The package variable \<^verbatim>\<open>nodeID\<close> is an \<^verbatim>\<open>int64\<close>, zero when the process starts;
  \<^verbatim>\<open>atomic.AddInt64(&nodeID, 1)\<close> adds one with wrap-around and returns the new value.
  The host name given to a machine is built from that new value.
\<close>

definition hostname_of :: "64 word \<Rightarrow> string" where
  "hostname_of newID = ''hostname-placeholder-'' @ fmt_04d (sint newID)"

text \<open>
  \<^verbatim>\<open>NewMachine\<close>. The counter and the shared topology tracker are passed in and
  returned. \<^verbatim>\<open>template := *machineTemplate\<close> copies the template; three of its fields are
  overwritten, the taints are kept.
\<close>

definition NewMachine ::
  "('pod, 'taints, 'r, 'res, 'hpu, 'topo, 'e) deps \<Rightarrow> ('taints, 'r, 'res) MachineTemplate \<Rightarrow> 'topo \<Rightarrow>
     'res \<Rightarrow> ('r, 'res) InstanceType list \<Rightarrow> 64 word \<Rightarrow>
     ('taints, 'r, 'res, 'pod, 'hpu) Machine \<times> 'topo \<times> 64 word" where
  "NewMachine env machineTemplate topology daemonResources instanceTypes nodeID =
     (let nodeID' = nodeID + 1;
          hostname = hostname_of nodeID';
          topology' = TopologyRegister env topology LabelHostname hostname;
          requirements0 = NewRequirements env [];
          requirements1 = RequirementsAdd env requirements0
                            (RequirementsValues env (Requirements machineTemplate));
          requirements2 = RequirementsAdd env requirements1
                            [NewRequirement env LabelHostname NodeSelectorOpIn [hostname]]
      in (\<lparr>Requirements = requirements2,
           Taints = Taints machineTemplate,
           Requests = daemonResources,
           InstanceTypeOptions = instanceTypes,
           Pods = [],
           hostPortUsage = NewHostPortUsage env\<rparr>,
          topology', nodeID'))"

text \<open>
  The errors of \<^verbatim>\<open>Add\<close>. Four \<^verbatim>\<open>return err\<close> hand on the error of a collaborator as
  it is (\<open>Returned\<close>); the requirement check wraps it with
  \<^verbatim>\<open>fmt.Errorf("incompatible requirements, %w", err)\<close>; the last one is a new error whose
  message prints the pod's requests, the merged requirements, the number of instance
  types before filtering and the diagnostics of the filter. The model keeps these four
  values instead of the text.
\<close>

datatype ('e, 'r, 'res) AddError =
  Returned 'e
  | IncompatibleRequirements 'e
  | NoInstanceType 'res "'r Requirements" nat "string list"

text \<open>
  \<^verbatim>\<open>Machine.Add\<close>. The receiver is a pointer and the method writes to it; the model
  returns the machine and the topology tracker as they are when the method returns,
  together with the error (\<open>None\<close> for \<^verbatim>\<open>nil\<close>). The context argument only reaches the
  host port ledger, for logging, and is left out.
\<close>

definition Add ::
  "('pod, 'taints, 'r, 'res, 'hpu, 'topo, 'e) deps \<Rightarrow> ('taints, 'r, 'res, 'pod, 'hpu) Machine \<Rightarrow> 'topo \<Rightarrow>
     'pod \<Rightarrow> ('taints, 'r, 'res, 'pod, 'hpu) Machine \<times> 'topo \<times> ('e, 'r, 'res) AddError option" where
  "Add env m topology pod =
     (case Tolerates env (Taints m) pod of
        Some err \<Rightarrow> (m, topology, Some (Returned err))
      | None \<Rightarrow>
     (case HostPortValidate env (hostPortUsage m) pod of
        Some err \<Rightarrow> (m, topology, Some (Returned err))
      | None \<Rightarrow>
     (let machineRequirements0 = NewRequirements env (RequirementsValues env (Requirements m));
          podRequirements = NewPodRequirements env pod
      in
     (case Compatible env machineRequirements0 podRequirements of
        Some err \<Rightarrow> (m, topology, Some (IncompatibleRequirements err))
      | None \<Rightarrow>
     (let machineRequirements1 =
            RequirementsAdd env machineRequirements0 (RequirementsValues env podRequirements)
      in
     (case TopologyAddRequirements env topology podRequirements machineRequirements1 pod of
        Inl err \<Rightarrow> (m, topology, Some (Returned err))
      | Inr topologyRequirements \<Rightarrow>
     (case Compatible env machineRequirements1 topologyRequirements of
        Some err \<Rightarrow> (m, topology, Some (Returned err))
      | None \<Rightarrow>
     (let machineRequirements =
            RequirementsAdd env machineRequirements1 (RequirementsValues env topologyRequirements);
          requests = Merge env (Requests m) (RequestsForPods env pod);
          beforeOptsCount = length (InstanceTypeOptions m)
      in
     (case filterInstanceTypesByRequirements env (InstanceTypeOptions m) machineRequirements requests of
        (instanceTypes, errors) \<Rightarrow>
          if length instanceTypes = 0
          then (m, topology,
                Some (NoInstanceType (RequestsForPods env pod) machineRequirements beforeOptsCount errors))
          else (m\<lparr>Pods := Pods m @ [pod],
                   InstanceTypeOptions := instanceTypes,
                   Requests := requests,
                   Requirements := machineRequirements,
                   hostPortUsage := HostPortAdd env (hostPortUsage m) pod\<rparr>,
                TopologyRecord env topology pod machineRequirements,
                None))))))))))"

text \<open>\<^verbatim>\<open>FinalizeScheduling\<close>: the builtin \<^verbatim>\<open>delete\<close> on the requirement map.\<close>

definition FinalizeScheduling ::
  "('taints, 'r, 'res, 'pod, 'hpu) Machine \<Rightarrow> ('taints, 'r, 'res, 'pod, 'hpu) Machine" where
  "FinalizeScheduling m = m\<lparr>Requirements := (Requirements m)(LabelHostname := None)\<rparr>"

text \<open>
  A caller's sequence of \<^verbatim>\<open>Add\<close> calls on one machine, one pod after the other, whatever
  each call returns: the list of the machine's states, the state before the first call
  first.
\<close>

fun Add_states ::
  "('pod, 'taints, 'r, 'res, 'hpu, 'topo, 'e) deps \<Rightarrow> ('taints, 'r, 'res, 'pod, 'hpu) Machine \<Rightarrow> 'topo \<Rightarrow>
     'pod list \<Rightarrow> ('taints, 'r, 'res, 'pod, 'hpu) Machine list" where
  "Add_states env m topology [] = [m]"
| "Add_states env m topology (pod # pods) =
     (case Add env m topology pod of
        (m', topology', err) \<Rightarrow> m # Add_states env m' topology' pods)"

text \<open>
  Modelled from the spec: \<^verbatim>\<open>resources.Merge\<close> of package \<^verbatim>\<open>pkg/utils/resources\<close> is not
  among the sources. The spec has \<^verbatim>\<open>Merge(resourceList...) -> resourceList\<close> and describes
  the accumulated requests as the sum \<^verbatim>\<open>requests + pod's own requests\<close>: a resource list
  gives each resource name a quantity (zero for a name it does not list) and merging adds
  the quantities name by name. Quantities are signed, as \<^verbatim>\<open>resource.Quantity\<close> is.
\<close>

definition Merge_spec :: "(string \<Rightarrow> int) \<Rightarrow> (string \<Rightarrow> int) \<Rightarrow> (string \<Rightarrow> int)" where
  "Merge_spec a b = (\<lambda>name. a name + b name)"

section \<open>Comma-separated text\<close>

text \<open>The names of a list joined by a comma and a space; the listing is compared with it.\<close>

fun comma_join :: "string list \<Rightarrow> string" where
  "comma_join [] = []"
| "comma_join [x] = x"
| "comma_join (x # y # ys) = x @ '', '' @ comma_join (y # ys)"

section \<open>A small instance of the collaborators\<close>

text \<open>
  To run the model on concrete machines and pods, the parameters are instantiated with a
  small requirement algebra, resource arithmetic, ledger and tracker. A requirement is a
  key with the list of values it allows (operator \<^verbatim>\<open>In\<close>); adding a requirement for a key
  that is present intersects the two value lists; two requirement sets are compatible
  when no key of the label universe \<open>example_keys\<close> has an empty intersection. A pod
  has a name, the taints it tolerates, host ports, a node selector and a CPU request. The
  ledger is the list of claimed ports, the tracker a log of registered domains and
  recorded pods. Resource lists give the names of \<open>example_resources\<close> a quantity. Every
  offering is available.
\<close>

record ExamplePod =
  podName :: string
  tolerations :: "string list"
  hostPorts :: "nat list"
  nodeSelector :: "(string \<times> string) list"
  cpu :: int

type_synonym ExampleRequirement = "string \<times> string list"

definition example_capacity_type :: string where
  "example_capacity_type = ''karpenter.sh/capacity-type''"

definition example_keys :: "string list" where
  "example_keys = [LabelHostname, LabelTopologyZone, example_capacity_type]"

definition example_resources :: "string list" where
  "example_resources = [''cpu'', ''memory'', ''pods'']"

definition example_add1 ::
  "ExampleRequirement Requirements \<Rightarrow> ExampleRequirement \<Rightarrow> ExampleRequirement Requirements" where
  "example_add1 R r =
     (case R (fst r) of
        None \<Rightarrow> R(fst r \<mapsto> r)
      | Some old \<Rightarrow> R(fst r \<mapsto> (fst r, filter (\<lambda>v. v \<in> set (snd old)) (snd r))))"

definition example_add ::
  "ExampleRequirement Requirements \<Rightarrow> ExampleRequirement list \<Rightarrow> ExampleRequirement Requirements" where
  "example_add R rs = foldl example_add1 R rs"

definition example_values :: "ExampleRequirement Requirements \<Rightarrow> ExampleRequirement list" where
  "example_values R = List.map_filter R example_keys"

definition example_clash ::
  "ExampleRequirement Requirements \<Rightarrow> ExampleRequirement Requirements \<Rightarrow> string \<Rightarrow> bool" where
  "example_clash R S key =
     (case R key of
        None \<Rightarrow> False
      | Some r \<Rightarrow> (case S key of
                    None \<Rightarrow> False
                  | Some s \<Rightarrow> filter (\<lambda>v. v \<in> set (snd s)) (snd r) = []))"

definition example_compatible ::
  "ExampleRequirement Requirements \<Rightarrow> ExampleRequirement Requirements \<Rightarrow> string option" where
  "example_compatible R S =
     (if list_ex (example_clash R S) example_keys then Some ''no common value'' else None)"

definition example_requests :: "ExamplePod \<Rightarrow> string \<Rightarrow> int" where
  "example_requests pod name =
     (if name = ''cpu'' then cpu pod else if name = ''pods'' then 1 else 0)"

definition example_deps ::
  "(ExamplePod, string list, ExampleRequirement, string \<Rightarrow> int, nat list,
    (string \<times> string) list, string) deps" where
  "example_deps =
     \<lparr>Tolerates = (\<lambda>taints pod.
        if list_ex (\<lambda>t. t \<notin> set (tolerations pod)) taints then Some ''taint not tolerated'' else None),
      NewHostPortUsage = [],
      HostPortValidate = (\<lambda>used pod.
        if list_ex (\<lambda>port. port \<in> set used) (hostPorts pod) then Some ''host port in use'' else None),
      HostPortAdd = (\<lambda>used pod. used @ hostPorts pod),
      NewRequirement = (\<lambda>key operator vals. (key, vals)),
      RequirementHas = (\<lambda>r v. v \<in> set (snd r)),
      NewRequirements = example_add Map.empty,
      NewPodRequirements = (\<lambda>pod.
        example_add Map.empty (map (\<lambda>kv. (fst kv, [snd kv])) (nodeSelector pod))),
      RequirementsValues = example_values,
      RequirementsAdd = example_add,
      RequirementsHas = (\<lambda>R key. R key \<noteq> None),
      RequirementsGet = (\<lambda>R key. case R key of None \<Rightarrow> (key, []) | Some r \<Rightarrow> r),
      Compatible = example_compatible,
      Intersects = example_compatible,
      TopologyRegister = (\<lambda>topology key domain. topology @ [(key, domain)]),
      TopologyAddRequirements = (\<lambda>topology podRequirements machineRequirements pod. Inr Map.empty),
      TopologyRecord = (\<lambda>topology pod requirements. topology @ [(''pod'', podName pod)]),
      Merge = Merge_spec,
      Fits = (\<lambda>requests allocatable.
        list_all (\<lambda>name. requests name \<le> allocatable name) example_resources),
      RequestsForPods = example_requests,
      OfferingsAvailable = (\<lambda>offerings. offerings),
      LabelCapacityType = example_capacity_type\<rparr>"

text \<open>
  Two instance types, one offered in zone \<open>a\<close> and one in zone \<open>b\<close>, each with 4 CPU;
  a machine that has both as options; pods that ask for zone \<open>a\<close>, for 3 CPU, and one
  that does not tolerate the taint of a tainted machine.
\<close>

definition example_allocatable :: "string \<Rightarrow> int" where
  "example_allocatable name =
     (if name = ''cpu'' then 4 else if name = ''memory'' then 8 else if name = ''pods'' then 110 else 0)"

definition example_type_a :: "(ExampleRequirement, string \<Rightarrow> int) InstanceType" where
  "example_type_a =
     \<lparr>Name = ''type-a'', itRequirements = Map.empty,
      Offerings = [\<lparr>CapacityType = ''on-demand'', Zone = ''zone-a''\<rparr>],
      Allocatable = example_allocatable\<rparr>"

definition example_type_b :: "(ExampleRequirement, string \<Rightarrow> int) InstanceType" where
  "example_type_b =
     \<lparr>Name = ''type-b'', itRequirements = Map.empty,
      Offerings = [\<lparr>CapacityType = ''on-demand'', Zone = ''zone-b''\<rparr>],
      Allocatable = example_allocatable\<rparr>"

definition example_machine ::
  "(string list, ExampleRequirement, string \<Rightarrow> int, ExamplePod, nat list) Machine" where
  "example_machine =
     \<lparr>Requirements = [LabelHostname \<mapsto> (LabelHostname, [''hostname-placeholder-0001''])],
      Taints = [],
      Requests = (\<lambda>name. 0),
      InstanceTypeOptions = [example_type_a, example_type_b],
      Pods = [],
      hostPortUsage = []\<rparr>"

definition example_pod_zone_a :: ExamplePod where
  "example_pod_zone_a =
     \<lparr>podName = ''p1'', tolerations = [], hostPorts = [8080],
      nodeSelector = [(LabelTopologyZone, ''zone-a'')], cpu = 3\<rparr>"

definition example_pod_plain :: ExamplePod where
  "example_pod_plain =
     \<lparr>podName = ''p2'', tolerations = [], hostPorts = [], nodeSelector = [], cpu = 3\<rparr>"

definition example_daemon_resources :: "string \<Rightarrow> int" where
  "example_daemon_resources name = (if name = ''cpu'' then 1 else 0)"

definition example_template :: "(string list, ExampleRequirement, string \<Rightarrow> int) MachineTemplate" where
  "example_template =
     \<lparr>Requirements = [LabelTopologyZone \<mapsto> (LabelTopologyZone, [''zone-a'', ''zone-b''])],
      Taints = [''dedicated=gpu:NoSchedule''],
      Requests = (\<lambda>name. 0),
      InstanceTypeOptions = []\<rparr>"

text \<open>
  The same machine with a taint; the same machine with a pod of 3 CPU; the requirement sets
  and the machine that appear when \<open>example_pod_zone_a\<close> is added to \<open>example_machine\<close>;
  the machine that \<^verbatim>\<open>NewMachine\<close> builds from \<open>example_template\<close> when the counter is 0.
\<close>

definition example_machine_tainted ::
  "(string list, ExampleRequirement, string \<Rightarrow> int, ExamplePod, nat list) Machine" where
  "example_machine_tainted = example_machine\<lparr>Taints := [''dedicated=gpu:NoSchedule'']\<rparr>"

definition example_machine_busy ::
  "(string list, ExampleRequirement, string \<Rightarrow> int, ExamplePod, nat list) Machine" where
  "example_machine_busy =
     example_machine\<lparr>Requests := example_requests example_pod_plain, Pods := [example_pod_plain]\<rparr>"

definition example_requirements_host :: "ExampleRequirement Requirements" where
  "example_requirements_host = [LabelHostname \<mapsto> (LabelHostname, [''hostname-placeholder-0001''])]"

definition example_requirements_zone_a :: "ExampleRequirement Requirements" where
  "example_requirements_zone_a = [LabelTopologyZone \<mapsto> (LabelTopologyZone, [''zone-a''])]"

definition example_requirements_host_zone_a :: "ExampleRequirement Requirements" where
  "example_requirements_host_zone_a =
     [LabelHostname \<mapsto> (LabelHostname, [''hostname-placeholder-0001'']),
      LabelTopologyZone \<mapsto> (LabelTopologyZone, [''zone-a''])]"

definition example_machine_zone_a ::
  "(string list, ExampleRequirement, string \<Rightarrow> int, ExamplePod, nat list) Machine" where
  "example_machine_zone_a =
     \<lparr>Requirements = example_requirements_host_zone_a,
      Taints = [],
      Requests = Merge_spec (\<lambda>name. 0) (example_requests example_pod_zone_a),
      InstanceTypeOptions = [example_type_a],
      Pods = [example_pod_zone_a],
      hostPortUsage = [8080]\<rparr>"

definition example_machine_new ::
  "(string list, ExampleRequirement, string \<Rightarrow> int, ExamplePod, nat list) Machine" where
  "example_machine_new =
     \<lparr>Requirements =
        [LabelTopologyZone \<mapsto> (LabelTopologyZone, [''zone-a'', ''zone-b'']),
         LabelHostname \<mapsto> (LabelHostname, [''hostname-placeholder-0001''])],
      Taints = [''dedicated=gpu:NoSchedule''],
      Requests = example_daemon_resources,
      InstanceTypeOptions = [example_type_a, example_type_b],
      Pods = [],
      hostPortUsage = []\<rparr>"

text \<open>
  A pod whose CPU request is negative (the type \<^verbatim>\<open>resource.Quantity\<close> is signed and \<^verbatim>\<open>Add\<close>
  does not look at the sign), and the machine after \<open>example_pod_plain\<close> and then this
  pod were added to \<open>example_machine\<close>.
\<close>

definition example_pod_negative :: ExamplePod where
  "example_pod_negative =
     \<lparr>podName = ''p3'', tolerations = [], hostPorts = [], nodeSelector = [], cpu = - 1\<rparr>"

definition example_machine_negative ::
  "(string list, ExampleRequirement, string \<Rightarrow> int, ExamplePod, nat list) Machine" where
  "example_machine_negative =
     \<lparr>Requirements = example_requirements_host,
      Taints = [],
      Requests = Merge_spec (example_requests example_pod_plain) (example_requests example_pod_negative),
      InstanceTypeOptions = [example_type_a, example_type_b],
      Pods = [example_pod_plain, example_pod_negative],
      hostPortUsage = []\<rparr>"

section \<open>Facts about the filter\<close>

lemma lo_Filter_filter_closure:
  "lo_Filter (filter_closure env R q) its c =
     (filter (\<lambda>t. compatible env t R \<and> fits env t q \<and> hasOffering env t R) its,
      c\<lparr>incompatCount := incompatCount c + length (filter (\<lambda>t. \<not> compatible env t R) its),
        fitsCount := fitsCount c + length (filter (\<lambda>t. \<not> fits env t q) its),
        hasOfferingCount := hasOfferingCount c + length (filter (\<lambda>t. \<not> hasOffering env t R) its)\<rparr>)"
proof (induction its arbitrary: c)
  case Nil
  show ?case by simp
next
  case (Cons t its)
  have step: "filter_closure env R q t c =
      (compatible env t R \<and> fits env t q \<and> hasOffering env t R,
       c\<lparr>incompatCount := incompatCount c + (if compatible env t R then 0 else 1),
         fitsCount := fitsCount c + (if fits env t q then 0 else 1),
         hasOfferingCount := hasOfferingCount c + (if hasOffering env t R then 0 else 1)\<rparr>)"
    by (simp add: filter_closure_def Let_def)
  show ?case
    by (simp add: Cons.IH step)
qed

lemma filter_results:
  "fst (filterInstanceTypesByRequirements env its R q) =
     filter (\<lambda>t. compatible env t R \<and> fits env t q \<and> hasOffering env t R) its"
  by (simp add: filterInstanceTypesByRequirements_def lo_Filter_filter_closure)

lemma filter_errors:
  "snd (filterInstanceTypesByRequirements env its R q) =
     [filter_message \<lparr>incompatCount = length (filter (\<lambda>t. \<not> compatible env t R) its),
        fitsCount = length (filter (\<lambda>t. \<not> fits env t q) its),
        hasOfferingCount = length (filter (\<lambda>t. \<not> hasOffering env t R) its)\<rparr>]"
  by (simp add: filterInstanceTypesByRequirements_def lo_Filter_filter_closure)

lemma hasOffering_loop_iff:
  "hasOffering_loop env R os = (\<exists>offering\<in>set os. offering_matches env R offering)"
  by (induction os) auto

lemma hasOffering_iff:
  "hasOffering env t R =
     (\<exists>offering\<in>set (OfferingsAvailable env (Offerings t)). offering_matches env R offering)"
  by (simp add: hasOffering_def hasOffering_loop_iff)

lemma count_union_le:
  "length (filter (\<lambda>x. P x \<or> Q x \<or> S x) xs)
     \<le> length (filter P xs) + length (filter Q xs) + length (filter S xs)"
  by (induction xs) auto

lemma count_union_less:
  "x \<in> set xs \<Longrightarrow> (P x \<and> Q x) \<or> (P x \<and> S x) \<or> (Q x \<and> S x) \<Longrightarrow>
   length (filter (\<lambda>x. P x \<or> Q x \<or> S x) xs)
     < length (filter P xs) + length (filter Q xs) + length (filter S xs)"
proof (induction xs)
  case Nil
  then show ?case by simp
next
  case (Cons y ys)
  have le: "length (filter (\<lambda>x. P x \<or> Q x \<or> S x) ys)
     \<le> length (filter P ys) + length (filter Q ys) + length (filter S ys)"
    by (rule count_union_le)
  show ?case
  proof (cases "x = y")
    case True
    with Cons.prems le show ?thesis by auto
  next
    case False
    with Cons have "length (filter (\<lambda>x. P x \<or> Q x \<or> S x) ys)
     < length (filter P ys) + length (filter Q ys) + length (filter S ys)" by simp
    then show ?thesis by auto
  qed
qed

lemma excluded_count:
  "length xs - length (filter P xs) = length (filter (\<lambda>x. \<not> P x) xs)"
  using sum_length_filter_compl [of P xs] by simp

section \<open>Facts about decimal formatting\<close>

lemma digit_char_values:
  "digit_char 0 = CHR ''0''" "digit_char 1 = CHR ''1''" "digit_char 2 = CHR ''2''"
  "digit_char 3 = CHR ''3''" "digit_char 4 = CHR ''4''" "digit_char 5 = CHR ''5''"
  "digit_char 6 = CHR ''6''" "digit_char 7 = CHR ''7''" "digit_char 8 = CHR ''8''"
  "digit_char 9 = CHR ''9''" "digit_char (Suc 0) = CHR ''1''"
  "digit_char (Suc (Suc 0)) = CHR ''2''"
  by (simp_all add: digit_char_def char_of_def bit_0 bit_Suc)

lemma digit_val_digit_char: "d < 10 \<Longrightarrow> digit_val (digit_char d) = d"
  by (simp add: digit_val_def digit_char_def)

lemma digit_char_not_minus: "d < 10 \<Longrightarrow> digit_char d \<noteq> CHR ''-''"
  by (auto simp: digit_char_def char_of_eq_iff take_bit_eq_mod)

lemma undigits_snoc: "undigits (s @ [c]) = undigits s * 10 + digit_val c"
  by (simp add: undigits_def)

lemma undigits_digits: "undigits (digits n) = n"
proof (induction n rule: digits.induct)
  case (1 n)
  show ?case
  proof (cases "n < 10")
    case True
    then show ?thesis
      by (subst digits.simps) (simp add: undigits_def digit_val_digit_char)
  next
    case False
    with 1 have "undigits (digits (n div 10)) = n div 10" by simp
    with False show ?thesis
      by (subst digits.simps) (simp add: undigits_snoc digit_val_digit_char)
  qed
qed

lemma digits_no_minus: "CHR ''-'' \<notin> set (digits n)"
proof (induction n rule: digits.induct)
  case (1 n)
  show ?case
  proof (cases "n < 10")
    case True
    then show ?thesis
      using digit_char_not_minus [of n] by (subst digits.simps) auto
  next
    case False
    with 1 have "CHR ''-'' \<notin> set (digits (n div 10))" by simp
    with False show ?thesis
      using digit_char_not_minus [of "n mod 10"] by (subst digits.simps) auto
  qed
qed

lemma digits_not_Nil: "digits n \<noteq> []"
  by (subst digits.simps) simp

lemma undigits_zeros: "undigits (replicate k CHR ''0'' @ s) = undigits s"
proof -
  have "foldl (\<lambda>acc c. acc * 10 + digit_val c) 0 (replicate k CHR ''0'') = 0"
    by (induction k) (simp_all add: digit_val_def)
  then show ?thesis by (simp add: undigits_def)
qed

lemma undigits_pad0: "undigits (pad0 w s) = undigits s"
  by (simp add: pad0_def undigits_zeros)

lemma pad0_no_minus: "CHR ''-'' \<notin> set s \<Longrightarrow> CHR ''-'' \<notin> set (pad0 w s)"
  by (auto simp: pad0_def)

lemma pad0_not_Nil: "s \<noteq> [] \<Longrightarrow> pad0 w s \<noteq> []"
  by (simp add: pad0_def)

lemma parse_d_fmt_04d: "parse_d (fmt_04d v) = v"
proof (cases "v < 0")
  case True
  then show ?thesis
    by (simp add: parse_d_def fmt_04d_def undigits_pad0 undigits_digits)
next
  case False
  let ?s = "pad0 4 (digits (nat v))"
  have ne: "?s \<noteq> []" by (simp add: pad0_not_Nil digits_not_Nil)
  have nm: "CHR ''-'' \<notin> set ?s" by (simp add: pad0_no_minus digits_no_minus)
  from ne obtain c r where s: "?s = c # r" by (cases ?s) auto
  with nm have "c \<noteq> CHR ''-''" by auto
  with s have "parse_d ?s = int (undigits ?s)" by (simp add: parse_d_def)
  with False show ?thesis by (simp add: fmt_04d_def undigits_pad0 undigits_digits)
qed

lemma parse_d_fmt_d: "parse_d (fmt_d v) = v"
proof (cases "v < 0")
  case True
  then show ?thesis
    by (simp add: parse_d_def fmt_d_def undigits_digits)
next
  case False
  let ?s = "digits (nat v)"
  have ne: "?s \<noteq> []" by (simp add: digits_not_Nil)
  have nm: "CHR ''-'' \<notin> set ?s" by (simp add: digits_no_minus)
  from ne obtain c r where s: "?s = c # r" by (cases ?s) auto
  with nm have "c \<noteq> CHR ''-''" by auto
  with s have "parse_d ?s = int (undigits ?s)" by (simp add: parse_d_def)
  with False show ?thesis by (simp add: fmt_d_def undigits_digits)
qed

lemma hostname_of_inj: "hostname_of a = hostname_of b \<Longrightarrow> a = b"
proof -
  assume "hostname_of a = hostname_of b"
  then have "fmt_04d (sint a) = fmt_04d (sint b)" by (simp add: hostname_of_def)
  then have "parse_d (fmt_04d (sint a)) = parse_d (fmt_04d (sint b))" by simp
  then have "sint a = sint b" by (simp only: parse_d_fmt_04d)
  then show "a = b" by (rule signed_word_eqI)
qed

section \<open>Facts about the listing\<close>

lemma comma_join_Cons:
  "comma_join (x # xs) = x @ (if xs = [] then [] else '', '' @ comma_join xs)"
  by (cases xs) auto

lemma InstanceTypeList_loop_eq:
  "i \<le> 5 \<Longrightarrow> n = i + length xs \<Longrightarrow>
   InstanceTypeList_loop n i xs sb =
     sb @ (if 0 < i \<and> i < 5 \<and> xs \<noteq> [] then '', '' else [])
        @ comma_join (map Name (take (5 - i) xs))
        @ (if 5 - i < length xs
           then '' and '' @ fmt_d (int (i + length xs) - 5) @ '' other(s)'' else [])"
proof (induction xs arbitrary: i sb)
  case Nil
  then show ?case by simp
next
  case (Cons it rest)
  show ?case
  proof (cases "i = 5")
    case True
    with Cons.prems show ?thesis by simp
  next
    case False
    with Cons.prems have i: "i \<le> 4" by simp
    then have "5 - i = Suc (4 - i)" by simp
    then have t: "take (5 - i) (it # rest) = it # take (4 - i) rest"
      by (simp only: take_Suc_Cons)
    have e: "(take (4 - i) rest = []) = (i = 4 \<or> rest = [])"
      using i by auto
    from i Cons.prems have "InstanceTypeList_loop n (i + 1) rest ((if i > 0 then sb @ '', '' else sb) @ Name it) =
      ((if i > 0 then sb @ '', '' else sb) @ Name it) @ (if 0 < i + 1 \<and> i + 1 < 5 \<and> rest \<noteq> [] then '', '' else [])
        @ comma_join (map Name (take (5 - (i + 1)) rest))
        @ (if 5 - (i + 1) < length rest
           then '' and '' @ fmt_d (int (i + 1 + length rest) - 5) @ '' other(s)'' else [])"
      by (intro Cons.IH) auto
    with i show ?thesis
      by (auto simp: t e comma_join_Cons)
  qed
qed

section \<open>Facts about \<^verbatim>\<open>Add\<close>\<close>

lemma Add_error_unchanged:
  "Add env m topology pod = (m', topology', Some err) \<Longrightarrow> m' = m \<and> topology' = topology"
  by (auto simp: Add_def Let_def split: option.splits sum.splits prod.splits if_splits)

lemma Add_success:
  assumes "Add env m topology pod = (m', topology', None)"
  shows "\<exists>topologyRequirements machineRequirements.
           TopologyAddRequirements env topology (NewPodRequirements env pod)
             (RequirementsAdd env (NewRequirements env (RequirementsValues env (Requirements m)))
                (RequirementsValues env (NewPodRequirements env pod))) pod = Inr topologyRequirements
           \<and> machineRequirements =
               RequirementsAdd env
                 (RequirementsAdd env (NewRequirements env (RequirementsValues env (Requirements m)))
                    (RequirementsValues env (NewPodRequirements env pod)))
                 (RequirementsValues env topologyRequirements)
           \<and> m' = m\<lparr>Pods := Pods m @ [pod],
                  InstanceTypeOptions :=
                    fst (filterInstanceTypesByRequirements env (InstanceTypeOptions m) machineRequirements
                           (Merge env (Requests m) (RequestsForPods env pod))),
                  Requests := Merge env (Requests m) (RequestsForPods env pod),
                  Requirements := machineRequirements,
                  hostPortUsage := HostPortAdd env (hostPortUsage m) pod\<rparr>
           \<and> topology' = TopologyRecord env topology pod machineRequirements
           \<and> fst (filterInstanceTypesByRequirements env (InstanceTypeOptions m) machineRequirements
                           (Merge env (Requests m) (RequestsForPods env pod))) \<noteq> []"
  using assms
  by (auto simp: Add_def Let_def split: option.splits sum.splits prod.splits if_splits)

lemma Add_options_length:
  assumes "Add env m topology pod = (m', topology', r)"
  shows "length (InstanceTypeOptions m') \<le> length (InstanceTypeOptions m)"
proof (cases r)
  case None
  with assms obtain mr where
    "InstanceTypeOptions m' = fst (filterInstanceTypesByRequirements env (InstanceTypeOptions m) mr
                           (Merge env (Requests m) (RequestsForPods env pod)))"
    using Add_success [of env m topology pod m' topology'] by auto
  then show ?thesis by (simp add: filter_results)
next
  case (Some err)
  with assms show ?thesis using Add_error_unchanged [of env m topology pod m' topology' err] by simp
qed

lemma Add_requests_mono:
  assumes "Add env m topology pod = (m', topology', r)"
    and "Merge env = Merge_spec"
    and "\<And>name. 0 \<le> RequestsForPods env pod name"
  shows "Requests m name \<le> Requests m' name"
proof (cases r)
  case None
  with assms(1) have "Requests m' = Merge env (Requests m) (RequestsForPods env pod)"
    using Add_success [of env m topology pod m' topology'] by auto
  with assms(2,3) show ?thesis by (simp add: Merge_spec_def)
next
  case (Some err)
  with assms show ?thesis using Add_error_unchanged [of env m topology pod m' topology' err] by simp
qed

lemma Add_states_from_head:
  assumes refl: "\<And>a. P a a"
    and trans: "\<And>a b c. P a b \<Longrightarrow> P b c \<Longrightarrow> P a c"
    and step: "\<forall>pod\<in>set pods. \<forall>a topology b topology' r.
                 Add env a topology pod = (b, topology', r) \<longrightarrow> P a b"
  shows "\<forall>y\<in>set (Add_states env m topology pods). P m y"
  using step
proof (induction pods arbitrary: m topology)
  case Nil
  show ?case by (simp add: refl)
next
  case (Cons pod pods)
  obtain m' topology' r where a: "Add env m topology pod = (m', topology', r)"
    by (cases "Add env m topology pod") auto
  have first: "P m m'" using Cons.prems a by (simp del: split_paired_All) blast
  have "\<forall>y\<in>set (Add_states env m' topology' pods). P m' y"
    by (rule Cons.IH) (use Cons.prems in auto)
  with first have "\<forall>y\<in>set (Add_states env m' topology' pods). P m y"
    using trans by blast
  with a show ?case by (simp add: refl)
qed

lemma Add_states_sorted:
  assumes refl: "\<And>a. P a a"
    and trans: "\<And>a b c. P a b \<Longrightarrow> P b c \<Longrightarrow> P a c"
    and step: "\<forall>pod\<in>set pods. \<forall>a topology b topology' r.
                 Add env a topology pod = (b, topology', r) \<longrightarrow> P a b"
  shows "sorted_wrt P (Add_states env m topology pods)"
  using step
proof (induction pods arbitrary: m topology)
  case Nil
  show ?case by simp
next
  case (Cons pod pods)
  obtain m' topology' r where a: "Add env m topology pod = (m', topology', r)"
    by (cases "Add env m topology pod") auto
  have first: "P m m'" using Cons.prems a by (simp del: split_paired_All) blast
  have "\<forall>y\<in>set (Add_states env m' topology' pods). P m' y"
    by (rule Add_states_from_head [OF refl trans]) (use Cons.prems in auto)
  with first have all: "\<forall>y\<in>set (Add_states env m' topology' pods). P m y"
    using trans by blast
  have "sorted_wrt P (Add_states env m' topology' pods)"
    by (rule Cons.IH) (use Cons.prems in auto)
  with a all show ?case by simp
qed

lemma Add_NoInstanceType:
  assumes "Add env m topology pod = (m', topology', Some (NoInstanceType requests requirements n errors))"
  shows "fst (filterInstanceTypesByRequirements env (InstanceTypeOptions m) requirements
                (Merge env (Requests m) requests)) = []"
  using assms
  by (auto simp: Add_def Let_def split: option.splits sum.splits prod.splits if_splits)

section \<open>The model on the example\<close>

lemma example_deps_sel:
  "Tolerates example_deps = (\<lambda>taints pod.
        if list_ex (\<lambda>t. t \<notin> set (tolerations pod)) taints then Some ''taint not tolerated'' else None)"
  "NewHostPortUsage example_deps = []"
  "HostPortValidate example_deps = (\<lambda>used pod.
        if list_ex (\<lambda>port. port \<in> set used) (hostPorts pod) then Some ''host port in use'' else None)"
  "HostPortAdd example_deps = (\<lambda>used pod. used @ hostPorts pod)"
  "NewRequirement example_deps = (\<lambda>key operator vals. (key, vals))"
  "RequirementHas example_deps = (\<lambda>r v. v \<in> set (snd r))"
  "NewRequirements example_deps = example_add Map.empty"
  "NewPodRequirements example_deps = (\<lambda>pod.
        example_add Map.empty (map (\<lambda>kv. (fst kv, [snd kv])) (nodeSelector pod)))"
  "RequirementsValues example_deps = example_values"
  "RequirementsAdd example_deps = example_add"
  "RequirementsHas example_deps = (\<lambda>R key. R key \<noteq> None)"
  "RequirementsGet example_deps = (\<lambda>R key. case R key of None \<Rightarrow> (key, []) | Some r \<Rightarrow> r)"
  "Compatible example_deps = example_compatible"
  "Intersects example_deps = example_compatible"
  "TopologyRegister example_deps = (\<lambda>topology key domain. topology @ [(key, domain)])"
  "TopologyAddRequirements example_deps = (\<lambda>topology podRequirements machineRequirements pod. Inr Map.empty)"
  "TopologyRecord example_deps = (\<lambda>topology pod requirements. topology @ [(''pod'', podName pod)])"
  "Merge example_deps = Merge_spec"
  "Fits example_deps = (\<lambda>requests allocatable.
        list_all (\<lambda>name. requests name \<le> allocatable name) example_resources)"
  "RequestsForPods example_deps = example_requests"
  "OfferingsAvailable example_deps = (\<lambda>offerings. offerings)"
  "LabelCapacityType example_deps = example_capacity_type"
  by (simp_all add: example_deps_def)

lemma example_labels_distinct:
  "LabelHostname \<noteq> LabelTopologyZone" "LabelTopologyZone \<noteq> LabelHostname"
  "LabelHostname \<noteq> example_capacity_type" "example_capacity_type \<noteq> LabelHostname"
  "LabelTopologyZone \<noteq> example_capacity_type" "example_capacity_type \<noteq> LabelTopologyZone"
  by (simp_all add: LabelHostname_def LabelTopologyZone_def example_capacity_type_def)

lemmas example_requirements_defs =
  example_requirements_host_def example_requirements_zone_a_def example_requirements_host_zone_a_def
  example_add_def example_add1_def example_values_def example_keys_def List.map_filter_def
  example_compatible_def example_clash_def example_labels_distinct

lemma example_zone_a_checks:
  "Tolerates example_deps (Taints example_machine) example_pod_zone_a = None"
  "HostPortValidate example_deps (hostPortUsage example_machine) example_pod_zone_a = None"
  "NewRequirements example_deps (RequirementsValues example_deps (Requirements example_machine))
     = example_requirements_host"
  "NewPodRequirements example_deps example_pod_zone_a = example_requirements_zone_a"
  "Compatible example_deps example_requirements_host example_requirements_zone_a = None"
  "RequirementsAdd example_deps example_requirements_host
     (RequirementsValues example_deps example_requirements_zone_a) = example_requirements_host_zone_a"
  "TopologyAddRequirements example_deps topology example_requirements_zone_a
     example_requirements_host_zone_a example_pod_zone_a = Inr Map.empty"
  "Compatible example_deps example_requirements_host_zone_a Map.empty = None"
  "RequirementsAdd example_deps example_requirements_host_zone_a
     (RequirementsValues example_deps Map.empty) = example_requirements_host_zone_a"
  by (simp_all add: example_deps_sel example_machine_def example_pod_zone_a_def
      example_requirements_defs)

lemma example_zone_a_filter:
  "filterInstanceTypesByRequirements example_deps (InstanceTypeOptions example_machine)
     example_requirements_host_zone_a
     (Merge example_deps (Requests example_machine) (RequestsForPods example_deps example_pod_zone_a))
   = ([example_type_a], [''0 incompatibile, 0 won'' @ [CHR 0x27] @ ''t fit, 1 no offerings''])"
  by (simp add: filterInstanceTypesByRequirements_def filter_closure_def compatible_def fits_def
      hasOffering_def offering_matches_def Let_def Merge_spec_def
      example_deps_sel example_machine_def example_pod_zone_a_def example_requirements_defs
      example_type_a_def example_type_b_def example_requests_def example_allocatable_def
      example_resources_def filter_message_def fmt_d_def digits.simps digit_char_values)

lemma example_Add_zone_a:
  "Add example_deps example_machine [] example_pod_zone_a
     = (example_machine_zone_a, [(''pod'', ''p1'')], None)"
  by (simp add: Add_def Let_def example_zone_a_checks example_zone_a_filter)
     (simp add: example_machine_def example_machine_zone_a_def example_deps_sel example_pod_zone_a_def)

lemma example_Add_tainted:
  "Add example_deps example_machine_tainted [] example_pod_plain
     = (example_machine_tainted, [], Some (Returned ''taint not tolerated''))"
  by (simp add: Add_def example_deps_sel example_machine_tainted_def example_pod_plain_def)

lemma example_busy_checks:
  "Tolerates example_deps (Taints example_machine_busy) example_pod_plain = None"
  "HostPortValidate example_deps (hostPortUsage example_machine_busy) example_pod_plain = None"
  "NewRequirements example_deps (RequirementsValues example_deps (Requirements example_machine_busy))
     = example_requirements_host"
  "NewPodRequirements example_deps example_pod_plain = Map.empty"
  "Compatible example_deps example_requirements_host Map.empty = None"
  "RequirementsAdd example_deps example_requirements_host
     (RequirementsValues example_deps Map.empty) = example_requirements_host"
  "TopologyAddRequirements example_deps topology Map.empty
     example_requirements_host example_pod_plain = Inr Map.empty"
  by (simp_all add: example_deps_sel example_machine_def example_machine_busy_def
      example_pod_plain_def example_requirements_defs)

lemma example_busy_filter:
  "filterInstanceTypesByRequirements example_deps (InstanceTypeOptions example_machine_busy)
     example_requirements_host
     (Merge example_deps (Requests example_machine_busy) (RequestsForPods example_deps example_pod_plain))
   = ([], [''0 incompatibile, 2 won'' @ [CHR 0x27] @ ''t fit, 0 no offerings''])"
  by (simp add: filterInstanceTypesByRequirements_def filter_closure_def compatible_def fits_def
      hasOffering_def offering_matches_def Let_def Merge_spec_def
      example_deps_sel example_machine_def example_machine_busy_def example_pod_plain_def
      example_requirements_defs
      example_type_a_def example_type_b_def example_requests_def example_allocatable_def
      example_resources_def filter_message_def fmt_d_def digits.simps digit_char_values)

lemma example_Add_busy:
  "Add example_deps example_machine_busy [] example_pod_plain
     = (example_machine_busy, [],
        Some (NoInstanceType (example_requests example_pod_plain) example_requirements_host 2
                [''0 incompatibile, 2 won'' @ [CHR 0x27] @ ''t fit, 0 no offerings'']))"
  by (simp add: Add_def Let_def example_busy_checks example_busy_filter)
     (simp add: example_machine_def example_machine_busy_def example_deps_sel)

lemma example_plain_checks:
  "Tolerates example_deps (Taints example_machine) example_pod_plain = None"
  "HostPortValidate example_deps (hostPortUsage example_machine) example_pod_plain = None"
  by (simp_all add: example_deps_sel example_machine_def example_pod_plain_def)

lemma example_plain_filter:
  "filterInstanceTypesByRequirements example_deps (InstanceTypeOptions example_machine)
     example_requirements_host
     (Merge example_deps (Requests example_machine) (RequestsForPods example_deps example_pod_plain))
   = ([example_type_a, example_type_b],
      [''0 incompatibile, 0 won'' @ [CHR 0x27] @ ''t fit, 0 no offerings''])"
  by (simp add: filterInstanceTypesByRequirements_def filter_closure_def compatible_def fits_def
      hasOffering_def offering_matches_def Let_def Merge_spec_def
      example_deps_sel example_machine_def example_pod_plain_def
      example_requirements_defs
      example_type_a_def example_type_b_def example_requests_def example_allocatable_def
      example_resources_def filter_message_def fmt_d_def digits.simps digit_char_values)

lemma example_Add_plain:
  "Add example_deps example_machine [] example_pod_plain
     = (example_machine_busy, [(''pod'', ''p2'')], None)"
  by (simp add: Add_def Let_def example_plain_checks example_zone_a_checks example_busy_checks
        example_plain_filter)
     (simp add: example_machine_def example_machine_busy_def example_deps_sel example_pod_plain_def
        Merge_spec_def example_requirements_host_def)

lemma example_negative_checks:
  "Tolerates example_deps (Taints example_machine_busy) example_pod_negative = None"
  "HostPortValidate example_deps (hostPortUsage example_machine_busy) example_pod_negative = None"
  "NewPodRequirements example_deps example_pod_negative = Map.empty"
  "TopologyAddRequirements example_deps topology Map.empty
     example_requirements_host example_pod_negative = Inr Map.empty"
  by (simp_all add: example_deps_sel example_machine_def example_machine_busy_def
      example_pod_negative_def example_requirements_defs)

lemma example_negative_filter:
  "filterInstanceTypesByRequirements example_deps (InstanceTypeOptions example_machine_busy)
     example_requirements_host
     (Merge example_deps (Requests example_machine_busy) (RequestsForPods example_deps example_pod_negative))
   = ([example_type_a, example_type_b],
      [''0 incompatibile, 0 won'' @ [CHR 0x27] @ ''t fit, 0 no offerings''])"
  by (simp add: filterInstanceTypesByRequirements_def filter_closure_def compatible_def fits_def
      hasOffering_def offering_matches_def Let_def Merge_spec_def
      example_deps_sel example_machine_def example_machine_busy_def example_pod_plain_def
      example_pod_negative_def example_requirements_defs
      example_type_a_def example_type_b_def example_requests_def example_allocatable_def
      example_resources_def filter_message_def fmt_d_def digits.simps digit_char_values)

lemma example_Add_negative:
  "Add example_deps example_machine_busy [(''pod'', ''p2'')] example_pod_negative
     = (example_machine_negative, [(''pod'', ''p2''), (''pod'', ''p3'')], None)"
  by (simp add: Add_def Let_def example_negative_checks example_busy_checks example_negative_filter)
     (simp add: example_machine_def example_machine_busy_def example_machine_negative_def
        example_deps_sel example_pod_negative_def example_requirements_host_def)

lemma example_hostname: "hostname_of 1 = ''hostname-placeholder-0001''"
  by (simp add: hostname_of_def fmt_04d_def pad0_def digits.simps digit_char_values eval_nat_numeral)

lemma example_NewMachine:
  "NewMachine example_deps example_template [] example_daemon_resources
     [example_type_a, example_type_b] 0
   = (example_machine_new, [(LabelHostname, ''hostname-placeholder-0001'')], 1)"
  by (simp add: NewMachine_def Let_def example_hostname example_deps_sel example_template_def
      example_machine_new_def example_requirements_defs)

section \<open>The claims about the listing and the filter\<close>

text \<open>
  Claim C7. For a list of more than five instance types the listing is the first five
  names in the order of the list, separated by a comma and a space, followed by
  \<^verbatim>\<open> and K other(s)\<close> where \<open>K\<close> is the length of the list minus five, in decimal; for
  a list of at most five it is all the names, separated in the same way, with no suffix.
\<close>

theorem InstanceTypeList_truncated:
  "InstanceTypeList its =
     (if 5 < length its
      then comma_join (map Name (take 5 its)) @ '' and '' @ fmt_d (int (length its) - 5) @ '' other(s)''
      else comma_join (map Name its))"
  by (simp add: InstanceTypeList_def InstanceTypeList_loop_eq)

text \<open>Seven instance types, and two.\<close>

theorem InstanceTypeList_truncated_witness:
  "InstanceTypeList
     [example_type_a, example_type_b, example_type_a, example_type_b, example_type_a, example_type_b,
      example_type_a]
   = ''type-a, type-b, type-a, type-b, type-a and 2 other(s)''
   \<and> InstanceTypeList [example_type_a, example_type_b] = ''type-a, type-b''"
  using InstanceTypeList_truncated
    [of "[example_type_a, example_type_b, example_type_a, example_type_b, example_type_a,
          example_type_b, example_type_a]"]
    InstanceTypeList_truncated [of "[example_type_a, example_type_b]"]
  by (simp add: example_type_a_def example_type_b_def fmt_d_def digits.simps digit_char_values)

text \<open>
  Claim C2. An instance type is in the output of the filter exactly when it is one of the
  candidates, its own requirements intersect the given ones (\<^verbatim>\<open>Intersects\<close> returns no
  error), the requests fit its allocatable resources, and one of its available offerings
  has a zone that the zone requirement allows, if the requirements have one, and a
  capacity type that the capacity-type requirement allows, if the requirements have one.
\<close>

theorem filter_membership:
  "t \<in> set (fst (filterInstanceTypesByRequirements env instanceTypes R q)) \<longleftrightarrow>
     t \<in> set instanceTypes
     \<and> Intersects env (itRequirements t) R = None
     \<and> Fits env q (Allocatable t)
     \<and> (\<exists>offering\<in>set (OfferingsAvailable env (Offerings t)).
            (RequirementsHas env R LabelTopologyZone \<longrightarrow>
               RequirementHas env (RequirementsGet env R LabelTopologyZone) (Zone offering))
          \<and> (RequirementsHas env R (LabelCapacityType env) \<longrightarrow>
               RequirementHas env (RequirementsGet env R (LabelCapacityType env)) (CapacityType offering)))"
  by (auto simp: filter_results compatible_def fits_def hasOffering_iff offering_matches_def)

text \<open>With the zone restricted to \<open>zone-a\<close>, the first type passes and the second does not.\<close>

theorem filter_membership_witness:
  "example_type_a \<in> set (fst (filterInstanceTypesByRequirements example_deps
       [example_type_a, example_type_b]
       [LabelTopologyZone \<mapsto> (LabelTopologyZone, [''zone-a''])] (\<lambda>name. 3)))
   \<and> example_type_b \<notin> set (fst (filterInstanceTypesByRequirements example_deps
       [example_type_a, example_type_b]
       [LabelTopologyZone \<mapsto> (LabelTopologyZone, [''zone-a''])] (\<lambda>name. 3)))"
  using filter_membership [of example_type_a example_deps "[example_type_a, example_type_b]"
      "[LabelTopologyZone \<mapsto> (LabelTopologyZone, [''zone-a''])]" "\<lambda>name. 3"]
    filter_membership [of example_type_b example_deps "[example_type_a, example_type_b]"
      "[LabelTopologyZone \<mapsto> (LabelTopologyZone, [''zone-a''])]" "\<lambda>name. 3"]
  by (simp add: example_deps_def example_type_a_def example_type_b_def example_compatible_def
      example_clash_def example_keys_def example_resources_def example_allocatable_def
      example_capacity_type_def LabelTopologyZone_def LabelHostname_def)

text \<open>
  Claim C9. The output of the filter is the input list with the entries removed that fail
  one of the three predicates; the entries that remain keep their relative order.
\<close>

theorem filter_preserves_order:
  "fst (filterInstanceTypesByRequirements env instanceTypes R q) =
     filter (\<lambda>t. compatible env t R \<and> fits env t q \<and> hasOffering env t R) instanceTypes
   \<and> subseq (fst (filterInstanceTypesByRequirements env instanceTypes R q)) instanceTypes"
  by (simp add: filter_results)

text \<open>A list with a repeated entry, unrestricted and restricted to \<open>zone-b\<close>.\<close>

theorem filter_preserves_order_witness:
  "fst (filterInstanceTypesByRequirements example_deps
          [example_type_b, example_type_a, example_type_b] Map.empty (\<lambda>name. 3))
     = [example_type_b, example_type_a, example_type_b]
   \<and> fst (filterInstanceTypesByRequirements example_deps
          [example_type_b, example_type_a, example_type_b]
          [LabelTopologyZone \<mapsto> (LabelTopologyZone, [''zone-b''])] (\<lambda>name. 3))
     = [example_type_b, example_type_b]"
  using filter_preserves_order [of example_deps "[example_type_b, example_type_a, example_type_b]"
      Map.empty "\<lambda>name. 3"]
    filter_preserves_order [of example_deps "[example_type_b, example_type_a, example_type_b]"
      "[LabelTopologyZone \<mapsto> (LabelTopologyZone, [''zone-b''])]" "\<lambda>name. 3"]
  by (simp add: compatible_def fits_def hasOffering_def offering_matches_def
      example_deps_def example_type_a_def example_type_b_def example_compatible_def
      example_clash_def example_keys_def example_resources_def example_allocatable_def
      example_capacity_type_def LabelTopologyZone_def LabelHostname_def)

text \<open>
  Claim C10. The filter returns exactly one diagnostic string, made of three counts: the
  number of candidates that are not compatible, the number that do not fit and the number
  without an offering, each counted over all candidates whatever the other two predicates
  say. The number of excluded candidates is at most the sum of the three counts, and it
  is smaller than the sum as soon as one candidate fails two of the predicates.
\<close>

theorem filter_diagnostics:
  "let incompat = length (filter (\<lambda>t. \<not> compatible env t R) instanceTypes);
       wontFit = length (filter (\<lambda>t. \<not> fits env t q) instanceTypes);
       noOffering = length (filter (\<lambda>t. \<not> hasOffering env t R) instanceTypes);
       excluded = length instanceTypes
                  - length (fst (filterInstanceTypesByRequirements env instanceTypes R q))
   in snd (filterInstanceTypesByRequirements env instanceTypes R q) =
        [fmt_d (int incompat) @ '' incompatibile, '' @ fmt_d (int wontFit) @ '' won'' @ [CHR 0x27]
           @ ''t fit, '' @ fmt_d (int noOffering) @ '' no offerings'']
      \<and> excluded \<le> incompat + wontFit + noOffering
      \<and> ((\<exists>t\<in>set instanceTypes.
             (\<not> compatible env t R \<and> \<not> fits env t q)
             \<or> (\<not> compatible env t R \<and> \<not> hasOffering env t R)
             \<or> (\<not> fits env t q \<and> \<not> hasOffering env t R))
          \<longrightarrow> excluded < incompat + wontFit + noOffering)"
proof -
  let ?P = "\<lambda>t. \<not> compatible env t R"
  let ?Q = "\<lambda>t. \<not> fits env t q"
  let ?S = "\<lambda>t. \<not> hasOffering env t R"
  have ex: "length instanceTypes
              - length (fst (filterInstanceTypesByRequirements env instanceTypes R q))
            = length (filter (\<lambda>t. ?P t \<or> ?Q t \<or> ?S t) instanceTypes)"
    by (simp add: filter_results excluded_count)
  have le: "length (filter (\<lambda>t. ?P t \<or> ?Q t \<or> ?S t) instanceTypes)
            \<le> length (filter ?P instanceTypes) + length (filter ?Q instanceTypes)
              + length (filter ?S instanceTypes)"
    by (rule count_union_le)
  have less: "length (filter (\<lambda>t. ?P t \<or> ?Q t \<or> ?S t) instanceTypes)
            < length (filter ?P instanceTypes) + length (filter ?Q instanceTypes)
              + length (filter ?S instanceTypes)"
    if "t \<in> set instanceTypes" "(?P t \<and> ?Q t) \<or> (?P t \<and> ?S t) \<or> (?Q t \<and> ?S t)" for t
    using that by (rule count_union_less)
  have msg: "snd (filterInstanceTypesByRequirements env instanceTypes R q) =
        [fmt_d (int (length (filter ?P instanceTypes))) @ '' incompatibile, ''
           @ fmt_d (int (length (filter ?Q instanceTypes))) @ '' won'' @ [CHR 0x27]
           @ ''t fit, '' @ fmt_d (int (length (filter ?S instanceTypes))) @ '' no offerings'']"
    by (simp add: filter_errors filter_message_def)
  show ?thesis
    unfolding Let_def ex using le less msg by blast
qed

text \<open>
  Requests of 5 CPU fit neither type and \<open>zone-a\<close> excludes the second as well: two
  candidates are excluded and the counts add up to three.
\<close>

theorem filter_diagnostics_witness:
  "snd (filterInstanceTypesByRequirements example_deps [example_type_a, example_type_b]
          [LabelTopologyZone \<mapsto> (LabelTopologyZone, [''zone-a''])] (\<lambda>name. 5))
     = [''0 incompatibile, 2 won'' @ [CHR 0x27] @ ''t fit, 1 no offerings'']
   \<and> length [example_type_a, example_type_b]
       - length (fst (filterInstanceTypesByRequirements example_deps [example_type_a, example_type_b]
          [LabelTopologyZone \<mapsto> (LabelTopologyZone, [''zone-a''])] (\<lambda>name. 5))) = 2"
  using filter_diagnostics [of example_deps
      "[LabelTopologyZone \<mapsto> (LabelTopologyZone, [''zone-a''])]"
      "[example_type_a, example_type_b]" "\<lambda>name. 5"]
  by (simp add: Let_def compatible_def fits_def hasOffering_def offering_matches_def
      example_deps_def example_type_a_def example_type_b_def example_compatible_def
      example_clash_def example_keys_def example_resources_def example_allocatable_def
      example_capacity_type_def LabelTopologyZone_def LabelHostname_def
      fmt_d_def digits.simps digit_char_values filter_results)

section \<open>The claims about \<^verbatim>\<open>Add\<close>\<close>

text \<open>
  Claim C1. When \<^verbatim>\<open>Add\<close> returns an error, the machine is as it was before the call: its
  requirements, requests, instance type options, pods and host port ledger are unchanged
  (and so is the shared topology tracker).
\<close>

theorem Add_atomic:
  assumes "Add env m topology pod = (m', topology', Some err)"
  shows "Requirements m' = Requirements m
         \<and> Requests m' = Requests m
         \<and> InstanceTypeOptions m' = InstanceTypeOptions m
         \<and> Pods m' = Pods m
         \<and> hostPortUsage m' = hostPortUsage m
         \<and> m' = m \<and> topology' = topology"
  using Add_error_unchanged [OF assms] by simp

text \<open>A rejection by the filter and a rejection by the taint check.\<close>

theorem Add_atomic_witness:
  "Add example_deps example_machine_busy [] example_pod_plain
     = (example_machine_busy, [],
        Some (NoInstanceType (example_requests example_pod_plain) example_requirements_host 2
                [''0 incompatibile, 2 won'' @ [CHR 0x27] @ ''t fit, 0 no offerings'']))
   \<and> Pods example_machine_busy = [example_pod_plain]
   \<and> Add example_deps example_machine_tainted [] example_pod_plain
     = (example_machine_tainted, [], Some (Returned ''taint not tolerated''))
   \<and> Pods example_machine_tainted = []"
  using Add_atomic [OF example_Add_busy] Add_atomic [OF example_Add_tainted]
    example_Add_busy example_Add_tainted
  by (simp add: example_machine_busy_def example_machine_tainted_def example_machine_def)

text \<open>
  Claim C3. \<^verbatim>\<open>Add\<close> checks in this order and stops at the first check that fails,
  returning its error with the machine and the tracker untouched: the taints, the host
  ports, the compatibility of the machine's requirements with the pod's, the requirements
  derived by the topology tracker and their compatibility with the merged requirements,
  and the narrowing of the instance types. Only when every check passes and the filtered
  list is not empty are the pod appended, the options, requests and requirements replaced,
  the pod recorded by the tracker and its host ports claimed.
\<close>

theorem Add_check_order:
  "let tolerated = Tolerates env (Taints m) pod;
       ports = HostPortValidate env (hostPortUsage m) pod;
       machineRequirements0 = NewRequirements env (RequirementsValues env (Requirements m));
       podRequirements = NewPodRequirements env pod;
       affinity = Compatible env machineRequirements0 podRequirements;
       machineRequirements1 =
         RequirementsAdd env machineRequirements0 (RequirementsValues env podRequirements);
       derived = TopologyAddRequirements env topology podRequirements machineRequirements1 pod;
       requests = Merge env (Requests m) (RequestsForPods env pod)
   in (\<forall>err. tolerated = Some err \<longrightarrow>
         Add env m topology pod = (m, topology, Some (Returned err)))
    \<and> (\<forall>err. tolerated = None \<and> ports = Some err \<longrightarrow>
         Add env m topology pod = (m, topology, Some (Returned err)))
    \<and> (\<forall>err. tolerated = None \<and> ports = None \<and> affinity = Some err \<longrightarrow>
         Add env m topology pod = (m, topology, Some (IncompatibleRequirements err)))
    \<and> (\<forall>err. tolerated = None \<and> ports = None \<and> affinity = None \<and> derived = Inl err \<longrightarrow>
         Add env m topology pod = (m, topology, Some (Returned err)))
    \<and> (\<forall>topologyRequirements err.
         tolerated = None \<and> ports = None \<and> affinity = None \<and> derived = Inr topologyRequirements
         \<and> Compatible env machineRequirements1 topologyRequirements = Some err \<longrightarrow>
         Add env m topology pod = (m, topology, Some (Returned err)))
    \<and> (\<forall>topologyRequirements machineRequirements.
         tolerated = None \<and> ports = None \<and> affinity = None \<and> derived = Inr topologyRequirements
         \<and> Compatible env machineRequirements1 topologyRequirements = None
         \<and> machineRequirements =
             RequirementsAdd env machineRequirements1 (RequirementsValues env topologyRequirements)
         \<and> fst (filterInstanceTypesByRequirements env (InstanceTypeOptions m) machineRequirements requests) = []
         \<longrightarrow>
         Add env m topology pod =
           (m, topology,
            Some (NoInstanceType (RequestsForPods env pod) machineRequirements
                    (length (InstanceTypeOptions m))
                    (snd (filterInstanceTypesByRequirements env (InstanceTypeOptions m)
                            machineRequirements requests)))))
    \<and> (\<forall>topologyRequirements machineRequirements.
         tolerated = None \<and> ports = None \<and> affinity = None \<and> derived = Inr topologyRequirements
         \<and> Compatible env machineRequirements1 topologyRequirements = None
         \<and> machineRequirements =
             RequirementsAdd env machineRequirements1 (RequirementsValues env topologyRequirements)
         \<and> fst (filterInstanceTypesByRequirements env (InstanceTypeOptions m) machineRequirements requests) \<noteq> []
         \<longrightarrow>
         Add env m topology pod =
           (m\<lparr>Pods := Pods m @ [pod],
              InstanceTypeOptions :=
                fst (filterInstanceTypesByRequirements env (InstanceTypeOptions m)
                       machineRequirements requests),
              Requests := requests,
              Requirements := machineRequirements,
              hostPortUsage := HostPortAdd env (hostPortUsage m) pod\<rparr>,
            TopologyRecord env topology pod machineRequirements,
            None))"
  by (simp add: Add_def Let_def split: prod.splits)

text \<open>
  On the example: the first check failing, the second check failing (the pod that was
  admitted is offered again and its host port is taken), every check passing, and the
  last check failing.
\<close>

theorem Add_check_order_witness:
  "Add example_deps example_machine_tainted [] example_pod_plain
     = (example_machine_tainted, [], Some (Returned ''taint not tolerated''))
   \<and> Add example_deps example_machine_zone_a [(''pod'', ''p1'')] example_pod_zone_a
     = (example_machine_zone_a, [(''pod'', ''p1'')], Some (Returned ''host port in use''))
   \<and> Add example_deps example_machine [] example_pod_zone_a
     = (example_machine_zone_a, [(''pod'', ''p1'')], None)
   \<and> Add example_deps example_machine_busy [] example_pod_plain
     = (example_machine_busy, [],
        Some (NoInstanceType (example_requests example_pod_plain) example_requirements_host 2
                [''0 incompatibile, 2 won'' @ [CHR 0x27] @ ''t fit, 0 no offerings'']))"
proof -
  have ports: "Tolerates example_deps (Taints example_machine_zone_a) example_pod_zone_a = None"
    "HostPortValidate example_deps (hostPortUsage example_machine_zone_a) example_pod_zone_a
       = Some ''host port in use''"
    by (simp_all add: example_deps_sel example_machine_zone_a_def example_pod_zone_a_def)
  have second: "Add example_deps example_machine_zone_a [(''pod'', ''p1'')] example_pod_zone_a
     = (example_machine_zone_a, [(''pod'', ''p1'')], Some (Returned ''host port in use''))"
    using Add_check_order [of example_deps example_machine_zone_a example_pod_zone_a
        "[(''pod'', ''p1'')]"]
    by (simp add: Let_def ports)
  have taint: "Tolerates example_deps (Taints example_machine_tainted) example_pod_plain
                 = Some ''taint not tolerated''"
    by (simp add: example_deps_sel example_machine_tainted_def example_pod_plain_def)
  have first: "Add example_deps example_machine_tainted [] example_pod_plain
     = (example_machine_tainted, [], Some (Returned ''taint not tolerated''))"
    using Add_check_order [of example_deps example_machine_tainted example_pod_plain "[]"]
    by (simp add: Let_def taint)
  have last: "Add example_deps example_machine [] example_pod_zone_a
     = (example_machine_zone_a, [(''pod'', ''p1'')], None)"
    using Add_check_order [of example_deps example_machine example_pod_zone_a "[]"]
    by (simp add: Let_def example_zone_a_checks example_zone_a_filter)
       (simp add: example_machine_def example_machine_zone_a_def example_deps_sel
          example_pod_zone_a_def)
  have sixth: "Add example_deps example_machine_busy [] example_pod_plain
     = (example_machine_busy, [],
        Some (NoInstanceType (example_requests example_pod_plain) example_requirements_host 2
                [''0 incompatibile, 2 won'' @ [CHR 0x27] @ ''t fit, 0 no offerings'']))"
    using Add_check_order [of example_deps example_machine_busy example_pod_plain "[]"]
    by (simp add: Let_def example_busy_checks example_busy_filter)
       (simp add: example_machine_def example_machine_busy_def example_deps_sel)
  from first second last sixth show ?thesis by simp
qed

text \<open>
  Claim C4. After a successful \<^verbatim>\<open>Add\<close> the instance type options are not empty, and each
  of them is compatible with the machine's requirements and has allocatable resources
  that the machine's requests fit. An \<^verbatim>\<open>Add\<close> rejected for lack of instance types is one
  whose filter returned the empty list, and it leaves the machine and the tracker as they
  were.
\<close>

theorem Add_invariant:
  assumes "Add env m topology pod = (m', topology', r)"
  shows "(r = None \<longrightarrow>
            InstanceTypeOptions m' \<noteq> []
            \<and> (\<forall>t\<in>set (InstanceTypeOptions m').
                  Intersects env (itRequirements t) (Requirements m') = None
                  \<and> Fits env (Requests m') (Allocatable t)))
       \<and> (\<forall>requests requirements n errors.
            r = Some (NoInstanceType requests requirements n errors) \<longrightarrow>
            fst (filterInstanceTypesByRequirements env (InstanceTypeOptions m) requirements
                   (Merge env (Requests m) requests)) = []
            \<and> m' = m \<and> topology' = topology)"
proof (intro conjI impI allI)
  assume "r = None"
  with assms obtain mr where
    m': "m' = m\<lparr>Pods := Pods m @ [pod],
                  InstanceTypeOptions :=
                    fst (filterInstanceTypesByRequirements env (InstanceTypeOptions m) mr
                           (Merge env (Requests m) (RequestsForPods env pod))),
                  Requests := Merge env (Requests m) (RequestsForPods env pod),
                  Requirements := mr,
                  hostPortUsage := HostPortAdd env (hostPortUsage m) pod\<rparr>"
    and ne: "fst (filterInstanceTypesByRequirements env (InstanceTypeOptions m) mr
                           (Merge env (Requests m) (RequestsForPods env pod))) \<noteq> []"
    using Add_success [of env m topology pod m' topology'] by auto
  from m' ne show "InstanceTypeOptions m' \<noteq> []" by simp
  from m' show "\<forall>t\<in>set (InstanceTypeOptions m').
                  Intersects env (itRequirements t) (Requirements m') = None
                  \<and> Fits env (Requests m') (Allocatable t)"
    by (simp add: filter_results compatible_def fits_def)
next
  fix requests requirements n errors
  assume r: "r = Some (NoInstanceType requests requirements n errors)"
  with assms show "fst (filterInstanceTypesByRequirements env (InstanceTypeOptions m) requirements
                   (Merge env (Requests m) requests)) = []"
    using Add_NoInstanceType [of env m topology pod m' topology' requests requirements n errors]
    by simp
  from r assms show "m' = m" "topology' = topology"
    using Add_error_unchanged [of env m topology pod m' topology'] by simp_all
qed

text \<open>An admission that narrows the options to one type, and a rejection by the filter.\<close>

theorem Add_invariant_witness:
  "Add example_deps example_machine [] example_pod_zone_a
     = (example_machine_zone_a, [(''pod'', ''p1'')], None)
   \<and> InstanceTypeOptions example_machine_zone_a = [example_type_a]
   \<and> Intersects example_deps (itRequirements example_type_a) (Requirements example_machine_zone_a) = None
   \<and> Fits example_deps (Requests example_machine_zone_a) (Allocatable example_type_a)
   \<and> Add example_deps example_machine_busy [] example_pod_plain
     = (example_machine_busy, [],
        Some (NoInstanceType (example_requests example_pod_plain) example_requirements_host 2
                [''0 incompatibile, 2 won'' @ [CHR 0x27] @ ''t fit, 0 no offerings'']))
   \<and> fst (filterInstanceTypesByRequirements example_deps (InstanceTypeOptions example_machine_busy)
            example_requirements_host
            (Merge example_deps (Requests example_machine_busy) (example_requests example_pod_plain))) = []"
  using Add_invariant [OF example_Add_zone_a] Add_invariant [OF example_Add_busy]
    example_Add_zone_a example_Add_busy
  by (simp add: example_machine_zone_a_def)

text \<open>
  Claim C5. Along any sequence of \<^verbatim>\<open>Add\<close> calls on one machine (a failed call repeats the
  state, so the successful calls are among them) the number of instance type options
  never grows. The requests are another matter: \<^verbatim>\<open>Add\<close> merges the pod's requests into
  the machine's without looking at their sign, so no component of the requests ever
  decreases only when no pod of the sequence requests a negative quantity (merging being
  the sum of the quantities name by name).
\<close>

theorem Add_monotone:
  "sorted_wrt (\<lambda>before after.
       length (InstanceTypeOptions after) \<le> length (InstanceTypeOptions before))
     (Add_states env m topology pods)
   \<and> (Merge env = Merge_spec \<and> (\<forall>pod\<in>set pods. \<forall>name. 0 \<le> RequestsForPods env pod name) \<longrightarrow>
        sorted_wrt (\<lambda>before after. \<forall>name. Requests before name \<le> Requests after name)
          (Add_states env m topology pods))"
proof (intro conjI impI)
  show "sorted_wrt (\<lambda>before after.
       length (InstanceTypeOptions after) \<le> length (InstanceTypeOptions before))
     (Add_states env m topology pods)"
  proof (rule Add_states_sorted)
    show "\<forall>pod\<in>set pods. \<forall>a topology b topology' r.
            Add env a topology pod = (b, topology', r) \<longrightarrow>
            length (InstanceTypeOptions b) \<le> length (InstanceTypeOptions a)"
      by (auto intro: Add_options_length)
  qed auto
next
  assume h: "Merge env = Merge_spec \<and> (\<forall>pod\<in>set pods. \<forall>name. 0 \<le> RequestsForPods env pod name)"
  show "sorted_wrt (\<lambda>before after. \<forall>name. Requests before name \<le> Requests after name)
          (Add_states env m topology pods)"
  proof (rule Add_states_sorted)
    show "\<forall>pod\<in>set pods. \<forall>a topology b topology' r.
            Add env a topology pod = (b, topology', r) \<longrightarrow>
            (\<forall>name. Requests a name \<le> Requests b name)"
      using h by (auto intro: Add_requests_mono)
  qed (simp, blast intro: order_trans)
qed

text \<open>One admission: from two options to one, from 0 CPU to 3.\<close>

theorem Add_monotone_witness:
  "Merge example_deps = Merge_spec
   \<and> (\<forall>name. 0 \<le> RequestsForPods example_deps example_pod_zone_a name)
   \<and> Add_states example_deps example_machine [] [example_pod_zone_a]
       = [example_machine, example_machine_zone_a]
   \<and> length (InstanceTypeOptions example_machine_zone_a) \<le> length (InstanceTypeOptions example_machine)
   \<and> (\<forall>name. Requests example_machine name \<le> Requests example_machine_zone_a name)"
proof -
  have merge: "Merge example_deps = Merge_spec"
    by (simp add: example_deps_sel)
  have nonneg: "\<forall>name. 0 \<le> RequestsForPods example_deps example_pod_zone_a name"
    by (simp add: example_deps_sel example_requests_def example_pod_zone_a_def)
  have states: "Add_states example_deps example_machine [] [example_pod_zone_a]
       = [example_machine, example_machine_zone_a]"
    by (simp add: example_Add_zone_a)
  from merge nonneg
    Add_monotone [of example_deps example_machine "[]" "[example_pod_zone_a]"]
  have "length (InstanceTypeOptions example_machine_zone_a) \<le> length (InstanceTypeOptions example_machine)
   \<and> (\<forall>name. Requests example_machine name \<le> Requests example_machine_zone_a name)"
    unfolding states by simp
  with merge nonneg states show ?thesis by simp
qed

text \<open>
  Claim C5, without the condition on the sign: two successful calls of \<^verbatim>\<open>Add\<close> on one
  machine, the first with a pod that requests 3 CPU and the second with a pod that
  requests -1 CPU. The CPU request of the machine goes from 3 to 2.
\<close>

theorem Add_requests_counterexample:
  "Merge example_deps = Merge_spec
   \<and> Add example_deps example_machine [] example_pod_plain
       = (example_machine_busy, [(''pod'', ''p2'')], None)
   \<and> Add example_deps example_machine_busy [(''pod'', ''p2'')] example_pod_negative
       = (example_machine_negative, [(''pod'', ''p2''), (''pod'', ''p3'')], None)
   \<and> Requests example_machine_busy ''cpu'' = 3
   \<and> Requests example_machine_negative ''cpu'' = 2
   \<and> \<not> Requests example_machine_busy ''cpu'' \<le> Requests example_machine_negative ''cpu''"
  using example_Add_plain example_Add_negative
  by (simp add: example_deps_sel example_machine_busy_def example_machine_negative_def
      example_requests_def example_pod_plain_def example_pod_negative_def Merge_spec_def)

section \<open>The claims about construction and finalization\<close>

text \<open>
  Claim C6. \<^verbatim>\<open>NewMachine\<close> has no failing branch. The machine it returns has the daemon
  resources as requests, the candidate list as instance type options, no pods, a new host
  port ledger, the template's taints, and as requirements a new requirement set to which
  the values of the template's requirements and then one requirement with key
  \<^verbatim>\<open>kubernetes.io/hostname\<close>, operator \<^verbatim>\<open>In\<close> and the single value of the new host name were
  added. The host name is registered with the tracker and the counter advances by one.
  Host names of different counter values differ, so the name is not given again by any of
  the next \<open>2^64 - 1\<close> calls.
\<close>

theorem NewMachine_result:
  assumes "NewMachine env machineTemplate topology daemonResources instanceTypes nodeID
             = (m, topology', nodeID')"
  shows "Requests m = daemonResources
       \<and> InstanceTypeOptions m = instanceTypes
       \<and> Requirements m =
           RequirementsAdd env
             (RequirementsAdd env (NewRequirements env [])
                (RequirementsValues env (Requirements machineTemplate)))
             [NewRequirement env LabelHostname NodeSelectorOpIn [hostname_of nodeID']]
       \<and> Taints m = Taints machineTemplate
       \<and> Pods m = []
       \<and> hostPortUsage m = NewHostPortUsage env
       \<and> topology' = TopologyRegister env topology LabelHostname (hostname_of nodeID')
       \<and> nodeID' = nodeID + 1
       \<and> (\<forall>other. other \<noteq> nodeID' \<longrightarrow> hostname_of other \<noteq> hostname_of nodeID')
       \<and> (\<forall>k. 0 < k \<and> k < 2 ^ 64 \<longrightarrow>
             hostname_of (nodeID' + word_of_nat k) \<noteq> hostname_of nodeID')"
proof -
  have later: "hostname_of (nodeID' + word_of_nat k) \<noteq> hostname_of nodeID'"
    if "0 < k" "k < 2 ^ 64" for k
  proof
    assume "hostname_of (nodeID' + word_of_nat k) = hostname_of nodeID'"
    then have "nodeID' + word_of_nat k = nodeID'" by (rule hostname_of_inj)
    then have "(word_of_nat k :: 64 word) = 0" by simp
    then have "2 ^ 64 dvd k" by (simp add: word_of_nat_eq_0_iff)
    with that show False by (auto dest: dvd_imp_le)
  qed
  have inj: "hostname_of other \<noteq> hostname_of nodeID'" if "other \<noteq> nodeID'" for other
    using that hostname_of_inj by blast
  from assms have "m = \<lparr>Requirements =
           RequirementsAdd env
             (RequirementsAdd env (NewRequirements env [])
                (RequirementsValues env (Requirements machineTemplate)))
             [NewRequirement env LabelHostname NodeSelectorOpIn [hostname_of nodeID']],
           Taints = Taints machineTemplate,
           Requests = daemonResources,
           InstanceTypeOptions = instanceTypes,
           Pods = [],
           hostPortUsage = NewHostPortUsage env\<rparr>"
    and "topology' = TopologyRegister env topology LabelHostname (hostname_of nodeID')"
    and "nodeID' = nodeID + 1"
    by (auto simp: NewMachine_def Let_def)
  with later inj show ?thesis by simp
qed

text \<open>
  The first machine of a process, built from the example template; its host name is not
  that of the second machine, nor that of the sixth.
\<close>

theorem NewMachine_result_witness:
  "NewMachine example_deps example_template [] example_daemon_resources
     [example_type_a, example_type_b] 0
   = (example_machine_new, [(LabelHostname, ''hostname-placeholder-0001'')], 1)
   \<and> Requests example_machine_new = example_daemon_resources
   \<and> InstanceTypeOptions example_machine_new = [example_type_a, example_type_b]
   \<and> Requirements example_machine_new LabelHostname
       = Some (LabelHostname, [''hostname-placeholder-0001''])
   \<and> hostname_of 2 \<noteq> hostname_of 1
   \<and> (0::nat) < 5 \<and> (5::nat) < 2 ^ 64
   \<and> hostname_of (1 + word_of_nat 5) \<noteq> hostname_of 1"
proof -
  note r = NewMachine_result [OF example_NewMachine]
  have "(2::64 word) \<noteq> 1" by simp
  with r have unique: "hostname_of 2 \<noteq> hostname_of 1" by blast
  have bound: "(0::nat) < 5 \<and> (5::nat) < 2 ^ 64" by simp
  with r have later: "hostname_of (1 + word_of_nat 5) \<noteq> hostname_of 1" by blast
  from r have fields: "Requests example_machine_new = example_daemon_resources"
    "InstanceTypeOptions example_machine_new = [example_type_a, example_type_b]"
    by simp_all
  have host: "Requirements example_machine_new LabelHostname
       = Some (LabelHostname, [''hostname-placeholder-0001''])"
    by (simp add: example_machine_new_def)
  from unique bound later fields host example_NewMachine show ?thesis by simp
qed

text \<open>
  Claim C8. \<^verbatim>\<open>FinalizeScheduling\<close> removes the requirement stored under the host name key
  and leaves the requirement of every other key, the pods, the requests, the instance type
  options, the taints and the host port ledger as they were.
\<close>

theorem FinalizeScheduling_frame:
  "Requirements (FinalizeScheduling m) LabelHostname = None
   \<and> (\<forall>key. key \<noteq> LabelHostname \<longrightarrow>
          Requirements (FinalizeScheduling m) key = Requirements m key)
   \<and> Pods (FinalizeScheduling m) = Pods m
   \<and> Requests (FinalizeScheduling m) = Requests m
   \<and> InstanceTypeOptions (FinalizeScheduling m) = InstanceTypeOptions m
   \<and> Taints (FinalizeScheduling m) = Taints m
   \<and> hostPortUsage (FinalizeScheduling m) = hostPortUsage m"
  by (simp add: FinalizeScheduling_def)

text \<open>The machine after one admission loses its host name and keeps its zone.\<close>

theorem FinalizeScheduling_frame_witness:
  "Requirements example_machine_zone_a LabelHostname
     = Some (LabelHostname, [''hostname-placeholder-0001''])
   \<and> Requirements (FinalizeScheduling example_machine_zone_a) LabelHostname = None
   \<and> LabelTopologyZone \<noteq> LabelHostname
   \<and> Requirements (FinalizeScheduling example_machine_zone_a) LabelTopologyZone
       = Some (LabelTopologyZone, [''zone-a''])
   \<and> Pods (FinalizeScheduling example_machine_zone_a) = [example_pod_zone_a]"
  using FinalizeScheduling_frame [of example_machine_zone_a]
  by (simp add: example_machine_zone_a_def example_requirements_host_zone_a_def
      example_labels_distinct)

end
